theory Spec2Isabelle
  imports Main
begin

section \<open>Strings\<close>

text \<open>
  A Python \<open>str\<close> is held as the bytes of its UTF-8 encoding. The program only compares
  names, lowercases them and uses them as keys, and two \<open>str\<close>s are equal exactly when
  their encodings are. The ASCII characters are the bytes below 128.
\<close>

definition is_ascii :: "char \<Rightarrow> bool" where
  "is_ascii c = ((of_char c :: nat) < 128)"

text \<open>
  On an ASCII character \<open>str.lower\<close> moves the letters \<open>A\<close> to \<open>Z\<close> (codes 65 to 90)
  up by 32 and keeps every other character.
\<close>

definition lower_char :: "char \<Rightarrow> char" where
  "lower_char c =
     (let n = (of_char c :: nat) in if 65 \<le> n \<and> n \<le> 90 then char_of (n + 32) else c)"

text \<open>
  \<open>str.lower\<close>. On a \<open>str\<close> of ASCII characters it lowercases character by character.
  On a \<open>str\<close> with a character outside ASCII it follows the case tables of the
  interpreter's Unicode database, which are no part of the program: \<open>unicode_lower\<close>
  stands for \<open>str.lower\<close> on those \<open>str\<close>s. It is a parameter of every function that
  lowercases a name, and the properties below hold whatever it is.
\<close>

definition lower :: "(string \<Rightarrow> string) \<Rightarrow> string \<Rightarrow> string" where
  "lower unicode_lower s = (if list_all is_ascii s then map lower_char s else unicode_lower s)"

section \<open>Dictionaries\<close>

text \<open>
  A dict literal and a dict comprehension store their entries from left to right, a later
  entry replacing an earlier one with the same key.
\<close>

definition dict_of :: "('k \<times> 'v) list \<Rightarrow> ('k \<rightharpoonup> 'v)" where
  "dict_of kvs = foldl (\<lambda>m (k, v). m(k \<mapsto> v)) Map.empty kvs"

section \<open>State codes and status values\<close>

definition STATE_FIPS_TO_NAME_items :: "(string \<times> string) list" where
  "STATE_FIPS_TO_NAME_items =
    [
     (''01'', ''Alabama''), (''02'', ''Alaska''), (''04'', ''Arizona''),
     (''05'', ''Arkansas''), (''06'', ''California''), (''08'', ''Colorado''),
     (''09'', ''Connecticut''), (''10'', ''Delaware''),
     (''11'', ''District of Columbia''), (''12'', ''Florida''), (''13'', ''Georgia''),
     (''15'', ''Hawaii''), (''16'', ''Idaho''), (''17'', ''Illinois''),
     (''18'', ''Indiana''), (''19'', ''Iowa''), (''20'', ''Kansas''),
     (''21'', ''Kentucky''), (''22'', ''Louisiana''), (''23'', ''Maine''),
     (''24'', ''Maryland''), (''25'', ''Massachusetts''), (''26'', ''Michigan''),
     (''27'', ''Minnesota''), (''28'', ''Mississippi''), (''29'', ''Missouri''),
     (''30'', ''Montana''), (''31'', ''Nebraska''), (''32'', ''Nevada''),
     (''33'', ''New Hampshire''), (''34'', ''New Jersey''), (''35'', ''New Mexico''),
     (''36'', ''New York''), (''37'', ''North Carolina''), (''38'', ''North Dakota''),
     (''39'', ''Ohio''), (''40'', ''Oklahoma''), (''41'', ''Oregon''),
     (''42'', ''Pennsylvania''), (''44'', ''Rhode Island''),
     (''45'', ''South Carolina''), (''46'', ''South Dakota''), (''47'', ''Tennessee''),
     (''48'', ''Texas''), (''49'', ''Utah''), (''50'', ''Vermont''),
     (''51'', ''Virginia''), (''53'', ''Washington''), (''54'', ''West Virginia''),
     (''55'', ''Wisconsin''), (''56'', ''Wyoming''), (''72'', ''Puerto Rico'')
    ]"

definition STATE_FIPS_TO_NAME :: "string \<rightharpoonup> string" where
  "STATE_FIPS_TO_NAME = dict_of STATE_FIPS_TO_NAME_items"

definition STATE_NAME_TO_FIPS :: "string \<rightharpoonup> string" where
  "STATE_NAME_TO_FIPS = dict_of (map (\<lambda>(k, v). (v, k)) STATE_FIPS_TO_NAME_items)"

type_synonym status = string

definition STATUS_DRY :: status where "STATUS_DRY = ''Dry''"
definition STATUS_MOIST :: status where "STATUS_MOIST = ''Moist''"
definition STATUS_WET :: status where "STATUS_WET = ''Wet''"

section \<open>The status table builder\<close>

type_synonym status_map = "(string \<times> string) \<rightharpoonup> status"

text \<open>
  \<open>add\<close> is the inner function of \<open>_build_status_map\<close>; the dict \<open>status\<close> it closes over
  is passed in and returned. \<open>not sfips\<close> holds for \<open>None\<close> and for the empty string.
\<close>

definition add ::
  "(string \<Rightarrow> string) \<Rightarrow> status_map \<Rightarrow> string \<Rightarrow> string list \<Rightarrow> status \<Rightarrow> status_map" where
  "add unicode_lower status state_name county_list stat =
     (case STATE_NAME_TO_FIPS state_name of
        None \<Rightarrow> status
      | Some sfips \<Rightarrow>
          if sfips = [] then status
          else foldl (\<lambda>m c. m((sfips, lower unicode_lower c) \<mapsto> stat)) status county_list)"

type_synonym batch = "string \<times> string list \<times> status"

definition add_batch :: "(string \<Rightarrow> string) \<Rightarrow> status_map \<Rightarrow> batch \<Rightarrow> status_map" where
  "add_batch unicode_lower status b = (case b of (state_name, county_list, stat) \<Rightarrow>
     add unicode_lower status state_name county_list stat)"

text \<open>The calls of \<open>add\<close> in \<open>_build_status_map\<close>, in the order of the source.\<close>

definition status_batches :: "batch list" where
  "status_batches =
   [
    (''Arkansas'',
     [''Ashley'', ''Bradley'', ''Clay'', ''Cleburne'', ''Craighead'', ''Crawford'',
      ''Faulkner'', ''Fulton'', ''Grant'', ''Hempstead'', ''Howard'', ''Independence'',
      ''Izard'', ''Johnson'', ''Lafayette'', ''Lawrence'', ''Lincoln'', ''Logan'',
      ''Lonoke'', ''Montgomery'', ''Nevada'', ''Newton'', ''Perry'', ''Pike'',
      ''Pope'', ''Scott'', ''Searcy'', ''Sebastian'', ''Stone'', ''White'', ''Yell''],
     STATUS_DRY),
    (''Texas'',
     [''Borden'', ''Kent'', ''Roberts''],
     STATUS_DRY),
    (''Mississippi'',
     [''Benton''],
     STATUS_DRY),
    (''Florida'',
     [''Liberty''],
     STATUS_DRY),
    (''South Dakota'',
     [''Oglala Lakota'', ''Shannon''],
     STATUS_DRY),
    (''Alabama'',
     [''Blount'', ''Cherokee'', ''Chilton'', ''Clarke'', ''Clay'', ''Coffee'',
      ''Cullman'', ''DeKalb'', ''Fayette'', ''Franklin'', ''Geneva'', ''Jackson'',
      ''Lamar'', ''Lauderdale'', ''Lawrence'', ''Marion'', ''Marshall'', ''Monroe'',
      ''Morgan'', ''Pickens'', ''Randolph'', ''Washington'', ''Winston''],
     STATUS_MOIST),
    (''Kentucky'',
     [''Adair'', ''Allen'', ''Ballard'', ''Bath'', ''Breathitt'', ''Butler'',
      ''Carlisle'', ''Casey'', ''Clinton'', ''Crittenden'', ''Cumberland'',
      ''Elliott'', ''Estill'', ''Fleming'', ''Hancock'', ''Hart'', ''Hickman'',
      ''Jackson'', ''Knott'', ''Knox'', ''Larue'', ''Lawrence'', ''Lee'', ''Leslie'',
      ''Lincoln'', ''McCreary'', ''McLean'', ''Martin'', ''Menifee'', ''Metcalfe'',
      ''Monroe'', ''Morgan'', ''Ohio'', ''Owsley'', ''Powell'', ''Robertson'',
      ''Rockcastle'', ''Russell'', ''Webster''],
     STATUS_MOIST),
    (''Mississippi'',
     [''Alcorn'', ''Amite'', ''Calhoun'', ''Chickasaw'', ''Choctaw'', ''Clarke'',
      ''Covington'', ''Franklin'', ''George'', ''Greene'', ''Itawamba'', ''Jasper'',
      ''Jones'', ''Kemper'', ''Lamar'', ''Lawrence'', ''Leake'', ''Lincoln'',
      ''Monroe'', ''Neshoba'', ''Newton'', ''Pearl River'', ''Pontotoc'', ''Prentiss'',
      ''Scott'', ''Simpson'', ''Smith'', ''Tate'', ''Tippah'', ''Tishomingo'',
      ''Union'', ''Wayne'', ''Webster''],
     STATUS_MOIST),
    (''Tennessee'',
     [''Anderson'', ''Bedford'', ''Bledsoe'', ''Blount'', ''Bradley'', ''Campbell'',
      ''Cannon'', ''Carroll'', ''Carter'', ''Cheatham'', ''Chester'', ''Claiborne'',
      ''Clay'', ''Cocke'', ''Coffee'', ''Crockett'', ''Cumberland'', ''Decatur'',
      ''DeKalb'', ''Dickson'', ''Dyer'', ''Fayette'', ''Fentress'', ''Franklin'',
      ''Gibson'', ''Giles'', ''Grainger'', ''Greene'', ''Grundy'', ''Hamblen'',
      ''Hancock'', ''Hardeman'', ''Hardin'', ''Hawkins'', ''Haywood'', ''Henderson'',
      ''Henry'', ''Hickman'', ''Houston'', ''Humphreys'', ''Jackson'', ''Jefferson'',
      ''Johnson'', ''Lake'', ''Lauderdale'', ''Lawrence'', ''Lewis'', ''Lincoln'',
      ''Loudon'', ''Macon'', ''Madison'', ''Marion'', ''Marshall'', ''Maury'',
      ''McMinn'', ''McNairy'', ''Meigs'', ''Monroe'', ''Montgomery'', ''Moore'',
      ''Morgan'', ''Obion'', ''Overton'', ''Perry'', ''Pickett'', ''Polk'', ''Putnam'',
      ''Rhea'', ''Roane'', ''Robertson'', ''Rutherford'', ''Scott'', ''Sequatchie'',
      ''Sevier'', ''Smith'', ''Stewart'', ''Sullivan'', ''Sumner'', ''Tipton'',
      ''Trousdale'', ''Unicoi'', ''Union'', ''Van Buren'', ''Warren'', ''Washington'',
      ''Wayne'', ''Weakley'', ''White'', ''Williamson'', ''Wilson''],
     STATUS_MOIST),
    (''Florida'',
     [''Lafayette''],
     STATUS_MOIST),
    (''Georgia'',
     [''Bleckley'', ''Butts'', ''Coweta'', ''Decatur'', ''Dodge'', ''Effingham'',
      ''Hart''],
     STATUS_MOIST)
   ]"

definition build_status_map :: "(string \<Rightarrow> string) \<Rightarrow> status_map" where
  "build_status_map unicode_lower = foldl (add_batch unicode_lower) Map.empty status_batches"

text \<open>The module-level table, built once when the module is loaded.\<close>

definition COUNTY_STATUS_MAP :: "(string \<Rightarrow> string) \<Rightarrow> status_map" where
  "COUNTY_STATUS_MAP unicode_lower = build_status_map unicode_lower"

section \<open>The geography collection and the joined outputs\<close>

text \<open>
  A row of the county GeoDataFrame, with the columns the program reads. The geometry is a
  value of the geometry library; its type is a parameter.
\<close>

record 'g county =
  GEOID :: string
  STATEFP :: string
  NAME :: string
  geometry :: 'g

text \<open>
  A row of the flat table \<open>df\<close>. The column \<open>state\<close> comes from
  \<open>Series.map(STATE_FIPS_TO_NAME)\<close>, which leaves a missing value (\<open>None\<close> here) where
  the code is not a key.
\<close>

record county_record =
  fips :: string
  county :: string
  state :: "string option"
  status :: status

record 'j feature =
  feature_type :: string
  feature_id :: string
  prop_name :: string
  prop_state :: "string option"
  feature_geometry :: 'j

record 'j geojson =
  geojson_type :: string
  features :: "'j feature list"

definition valid_states :: "string set" where
  "valid_states = set (map fst STATE_FIPS_TO_NAME_items)"

definition get_status :: "(string \<Rightarrow> string) \<Rightarrow> 'g county \<Rightarrow> status" where
  "get_status unicode_lower row =
     (let key = (STATEFP row, lower unicode_lower (NAME row)) in
      case COUNTY_STATUS_MAP unicode_lower key of None \<Rightarrow> STATUS_WET | Some s \<Rightarrow> s)"

datatype error = ValueError

text \<open>
  \<open>pd.DataFrame\<close> from four columns: row \<open>i\<close> of the table holds element \<open>i\<close> of each
  column. The columns passed below are all taken from one frame.
\<close>

definition DataFrame ::
  "string list \<Rightarrow> string list \<Rightarrow> string option list \<Rightarrow> status list \<Rightarrow> county_record list" where
  "DataFrame fips_col county_col state_col status_col =
     map (\<lambda>(f, c, s, st). \<lparr>fips = f, county = c, state = s, status = st\<rparr>)
       (zip fips_col (zip county_col (zip state_col status_col)))"

text \<open>
  \<open>build_county_dataset\<close>, as a function of the frame it is given. The two calls into
  the geometry library are parameters: \<open>simplify\<close> stands for
  \<open>simplify(tolerance=0.005, preserve_topology=True)\<close> on one geometry and
  \<open>geometry_json\<close> for the conversion of one geometry to its GeoJSON value.
  The frame is a list of rows in index order; \<open>isin\<close> keeps the rows whose code is in
  \<open>valid_states\<close>, \<open>apply(get_status, axis=1)\<close> and \<open>map\<close> compute one value per row.

  When no row is kept, \<open>apply(get_status, axis=1)\<close> returns a frame and not a column, and
  the assignment to the column \<open>status\<close> raises \<open>ValueError\<close>: the function returns
  nothing.
\<close>

definition build_county_dataset ::
  "(string \<Rightarrow> string) \<Rightarrow> ('g \<Rightarrow> 'g) \<Rightarrow> ('g \<Rightarrow> 'j) \<Rightarrow> 'g county list \<Rightarrow>
     error + county_record list \<times> 'j geojson" where
  "build_county_dataset unicode_lower simplify geometry_json gdf0 =
     (let gdf = filter (\<lambda>r. STATEFP r \<in> valid_states) gdf0 in
      if gdf = [] then Inl ValueError
      else
        let status_col = map (get_status unicode_lower) gdf;
            state_name_col = map (\<lambda>r. STATE_FIPS_TO_NAME (STATEFP r)) gdf;
            df = DataFrame (map GEOID gdf) (map NAME gdf) state_name_col status_col;
            geometry_col = map (\<lambda>r. simplify (geometry r)) gdf;
            feats = map (\<lambda>(r, sn, g).
                      \<lparr>feature_type = ''Feature'', feature_id = GEOID r, prop_name = NAME r,
                       prop_state = sn, feature_geometry = geometry_json g\<rparr>)
                      (zip gdf (zip state_name_col geometry_col))
        in Inr (df, \<lparr>geojson_type = ''FeatureCollection'', features = feats\<rparr>))"

section \<open>A run of the joiner on the objects of the program\<close>

text \<open>
  What one run of \<open>build_county_dataset\<close> can leave behind for the next are the objects
  the program holds: the dict bound to \<open>COUNTY_STATUS_MAP\<close> and the GeoDataFrame the
  caller passes. Here the function is followed statement by statement on a memory of these
  objects. A GeoDataFrame object holds its rows and, once assigned, the columns
  \<open>status\<close> and \<open>state_name\<close>; objects are named by numbers, those below \<open>allocated\<close>
  exist.
\<close>

record 'g geo_frame =
  frame_rows :: "'g county list"
  status_column :: "status list option"
  state_name_column :: "string option list option"

record 'g memory =
  county_status_map_object :: status_map
  frame_objects :: "nat \<Rightarrow> 'g geo_frame"
  allocated :: nat

text \<open>
  Boolean indexing \<open>gdf[mask]\<close> keeps, of the rows and of every column, the positions
  where the mask is true.
\<close>

definition select_by :: "bool list \<Rightarrow> 'a list \<Rightarrow> 'a list" where
  "select_by keep xs = map snd (filter fst (zip keep xs))"

definition frame_select :: "bool list \<Rightarrow> 'g geo_frame \<Rightarrow> 'g geo_frame" where
  "frame_select keep fr =
     \<lparr>frame_rows = select_by keep (frame_rows fr),
      status_column = map_option (select_by keep) (status_column fr),
      state_name_column = map_option (select_by keep) (state_name_column fr)\<rparr>"

text \<open>Boolean indexing and \<open>copy()\<close> each give a frame object of its own.\<close>

definition new_frame :: "'g geo_frame \<Rightarrow> 'g memory \<Rightarrow> nat \<times> 'g memory" where
  "new_frame fr mem =
     (allocated mem,
      mem\<lparr>frame_objects := (frame_objects mem)(allocated mem := fr),
          allocated := Suc (allocated mem)\<rparr>)"

text \<open>Assignments to the columns of the frame object \<open>g\<close>.\<close>

definition assign_status :: "nat \<Rightarrow> status list \<Rightarrow> 'g memory \<Rightarrow> 'g memory" where
  "assign_status g col mem =
     mem\<lparr>frame_objects := (frame_objects mem)(g := (frame_objects mem g)\<lparr>status_column := Some col\<rparr>)\<rparr>"

definition assign_state_name :: "nat \<Rightarrow> string option list \<Rightarrow> 'g memory \<Rightarrow> 'g memory" where
  "assign_state_name g col mem =
     mem\<lparr>frame_objects :=
       (frame_objects mem)(g := (frame_objects mem g)\<lparr>state_name_column := Some col\<rparr>)\<rparr>"

definition assign_geometry :: "nat \<Rightarrow> 'g list \<Rightarrow> 'g memory \<Rightarrow> 'g memory" where
  "assign_geometry g col mem =
     mem\<lparr>frame_objects :=
       (frame_objects mem)(g := (frame_objects mem g)
         \<lparr>frame_rows := map (\<lambda>(r, x). r\<lparr>geometry := x\<rparr>) (zip (frame_rows (frame_objects mem g)) col)\<rparr>)\<rparr>"

text \<open>\<open>get_status\<close>, looking the key up in the dict object of the memory.\<close>

definition get_status_in :: "status_map \<Rightarrow> (string \<Rightarrow> string) \<Rightarrow> 'g county \<Rightarrow> status" where
  "get_status_in table unicode_lower row =
     (let key = (STATEFP row, lower unicode_lower (NAME row)) in
      case table key of None \<Rightarrow> STATUS_WET | Some s \<Rightarrow> s)"

text \<open>
  The run: \<open>caller_gdf\<close> names the frame object passed in. The result is what the call
  returns or raises, with the memory it leaves.
\<close>

definition build_county_dataset_run ::
  "(string \<Rightarrow> string) \<Rightarrow> ('g \<Rightarrow> 'g) \<Rightarrow> ('g \<Rightarrow> 'j) \<Rightarrow> nat \<Rightarrow> 'g memory \<Rightarrow>
     (error + county_record list \<times> 'j geojson) \<times> 'g memory" where
  "build_county_dataset_run unicode_lower simplify geometry_json caller_gdf mem0 =
     (let keep = map (\<lambda>r. STATEFP r \<in> valid_states) (frame_rows (frame_objects mem0 caller_gdf));
          (selected, mem1) = new_frame (frame_select keep (frame_objects mem0 caller_gdf)) mem0;
          (gdf, mem2) = new_frame (frame_objects mem1 selected) mem1;
          rows = frame_rows (frame_objects mem2 gdf)
      in
        if rows = [] then (Inl ValueError, mem2)
        else
          let status_col = map (get_status_in (county_status_map_object mem2) unicode_lower) rows;
              mem3 = assign_status gdf status_col mem2;
              state_name_col = map (\<lambda>r. STATE_FIPS_TO_NAME (STATEFP r)) rows;
              mem4 = assign_state_name gdf state_name_col mem3;
              df = DataFrame (map GEOID rows) (map NAME rows) state_name_col status_col;
              (gdf_simplified, mem5) = new_frame (frame_objects mem4 gdf) mem4;
              mem6 = assign_geometry gdf_simplified (map (\<lambda>r. simplify (geometry r)) rows) mem5;
              feats = map (\<lambda>(r, sn).
                        \<lparr>feature_type = ''Feature'', feature_id = GEOID r, prop_name = NAME r,
                         prop_state = sn, feature_geometry = geometry_json (geometry r)\<rparr>)
                        (zip (frame_rows (frame_objects mem6 gdf_simplified)) state_name_col)
          in (Inr (df, \<lparr>geojson_type = ''FeatureCollection'', features = feats\<rparr>), mem6))"

section \<open>The verifier\<close>

type_synonym spot_check = "string \<times> string \<times> status \<times> string"

definition checks :: "spot_check list" where
  "checks =
     [
      (''Hot Spring'', ''Arkansas'', STATUS_WET, ''Voted wet Nov 2022''),
      (''Borden'', ''Texas'', STATUS_DRY, ''One of only 3 dry TX counties''),
      (''Kent'', ''Texas'', STATUS_DRY, ''One of only 3 dry TX counties''),
      (''Roberts'', ''Texas'', STATUS_DRY, ''One of only 3 dry TX counties''),
      (''Benton'', ''Mississippi'', STATUS_DRY, ''Only fully dry MS county''),
      (''Liberty'', ''Florida'', STATUS_DRY, ''Only fully dry FL county''),
      (''Cullman'', ''Alabama'', STATUS_MOIST, ''Moist - has wet cities''),
      (''Throckmorton'', ''Texas'', STATUS_WET, ''Voted wet Nov 2024''),
      (''Davidson'', ''Tennessee'', STATUS_WET, ''Nashville - fully wet''),
      (''Shelby'', ''Tennessee'', STATUS_WET, ''Memphis - fully wet''),
      (''Moore'', ''Tennessee'', STATUS_MOIST, ''Jack Daniel's county - moist'')
     ]"

datatype verdict = MISS | PASS | FAIL

text \<open>One printed line: the tag, the county and the state of the check.\<close>

type_synonym report = "verdict \<times> string \<times> string"

text \<open>\<open>df[(df["county"] == county) & (df["state"] == state)]\<close>\<close>

definition select_rows :: "county_record list \<Rightarrow> string \<Rightarrow> string \<Rightarrow> county_record list" where
  "select_rows df cnty st = filter (\<lambda>r. county r = cnty \<and> state r = Some st) df"

text \<open>
  The body of the loop of \<open>verify_data\<close>, on the lines printed so far and the flag
  \<open>all_pass\<close>.
\<close>

fun verify_step :: "county_record list \<Rightarrow> report list \<times> bool \<Rightarrow> spot_check \<Rightarrow> report list \<times> bool" where
  "verify_step df (out, all_pass) (cnty, st, expected, note) =
     (case select_rows df cnty st of
        [] \<Rightarrow> (out @ [(MISS, cnty, st)], False)
      | r # _ \<Rightarrow>
          (let actual = status r;
               ok = (if actual = expected then PASS else FAIL)
           in (out @ [(ok, cnty, st)], if ok = FAIL then False else all_pass)))"

definition verify_data :: "county_record list \<Rightarrow> report list \<times> bool" where
  "verify_data df = foldl (verify_step df) ([], True) checks"

section \<open>Notions used to state the properties\<close>

text \<open>
  A batch (one call of \<open>add\<close>) writes a key when its state name has a code and the key is
  that code with the lowercased name of one of the batch's counties: these are the keys
  the loop of \<open>add\<close> assigns.
\<close>

definition writes :: "(string \<Rightarrow> string) \<Rightarrow> batch \<Rightarrow> string \<times> string \<Rightarrow> bool" where
  "writes unicode_lower b k = (case b of (state_name, county_list, stat) \<Rightarrow>
     (case STATE_NAME_TO_FIPS state_name of
        None \<Rightarrow> False
      | Some sfips \<Rightarrow>
          sfips \<noteq> [] \<and> k \<in> set (map (\<lambda>c. (sfips, lower unicode_lower c)) county_list)))"

text \<open>
  Two characters are the same letter up to case when they are equal or one is an ASCII
  capital and the other is the small letter 32 places above it; two names differ only in
  letter case when they have the same length and agree in this sense at every position.
\<close>

definition same_letter :: "char \<Rightarrow> char \<Rightarrow> bool" where
  "same_letter c d =
     (let m = (of_char c :: nat); n = (of_char d :: nat) in
      c = d \<or> (65 \<le> m \<and> m \<le> 90 \<and> n = m + 32) \<or> (65 \<le> n \<and> n \<le> 90 \<and> m = n + 32))"

definition differ_only_in_case :: "string \<Rightarrow> string \<Rightarrow> bool" where
  "differ_only_in_case s t = list_all2 same_letter s t"

text \<open>The table a call returns, or the error it raises.\<close>

definition tabular_output :: "error + county_record list \<times> 'j geojson \<Rightarrow> error + county_record list" where
  "tabular_output res = (case res of Inl e \<Rightarrow> Inl e | Inr (df, geojson) \<Rightarrow> Inr df)"

text \<open>
  \<open>str.lower\<close> on the \<open>str\<close>s whose characters outside ASCII have no lowercase form to
  move to, as the dotless i (U+0131, the bytes C4 B1), a small letter whose capital is
  \<open>I\<close>: only the ASCII capitals change.
\<close>

definition lower_ascii_capitals_only :: "string \<Rightarrow> string" where
  "lower_ascii_capitals_only s = map lower_char s"

text \<open>
  The state codes of the 50 states and the District of Columbia, and the codes of the
  territories other than Puerto Rico (American Samoa, Guam, the Northern Mariana Islands,
  the US Virgin Islands), as the Census Bureau assigns them.
\<close>

definition states_and_dc_fips :: "string list" where
  "states_and_dc_fips =
     [''01'', ''02'', ''04'', ''05'', ''06'', ''08'', ''09'', ''10'', ''11'', ''12'', ''13'',
      ''15'', ''16'', ''17'', ''18'', ''19'', ''20'', ''21'', ''22'', ''23'', ''24'', ''25'',
      ''26'', ''27'', ''28'', ''29'', ''30'', ''31'', ''32'', ''33'', ''34'', ''35'', ''36'',
      ''37'', ''38'', ''39'', ''40'', ''41'', ''42'', ''44'', ''45'', ''46'', ''47'', ''48'',
      ''49'', ''50'', ''51'', ''53'', ''54'', ''55'', ''56'']"

definition puerto_rico_fips :: string where
  "puerto_rico_fips = ''72''"

definition other_territory_fips :: "string list" where
  "other_territory_fips = [''60'', ''66'', ''69'', ''78'']"

text \<open>
  What one check of the verifier is to report on a table: \<open>MISS\<close> when no row has the
  county and the state of the check, otherwise \<open>PASS\<close> or \<open>FAIL\<close> as the status of the
  first such row equals the expected status or not.
\<close>

definition expected_verdict :: "county_record list \<Rightarrow> spot_check \<Rightarrow> verdict" where
  "expected_verdict df chk = (case chk of (cnty, st, expected, note) \<Rightarrow>
     if select_rows df cnty st = [] then MISS
     else if status (hd (select_rows df cnty st)) = expected then PASS
     else FAIL)"

section \<open>Evaluating names and table lookups\<close>

text \<open>
  On the eight bits of a character, the ASCII characters have the top bit clear, the ASCII
  capitals are the codes \<open>010xxxxx\<close> with \<open>xxxxx\<close> from 1 to 26, and \<open>lower_char\<close> sets
  the bit of value 32.
\<close>

lemma is_ascii_Char: "is_ascii (Char a b c d e f g h) = (\<not> h)"
  by (cases a; cases b; cases c; cases d; cases e; cases f; cases g; cases h;
      simp add: is_ascii_def)

lemma lower_char_Char:
  "lower_char (Char a b c d e f g h) =
     (if \<not> h \<and> g \<and> \<not> f \<and> (a \<or> b \<or> c \<or> d \<or> e) \<and> \<not> (e \<and> d \<and> (c \<or> (a \<and> b)))
      then Char a b c d e True g h else Char a b c d e f g h)"
  by (cases a; cases b; cases c; cases d; cases e; cases f; cases g; cases h;
      simp add: lower_char_def char_of_def bit_0)

lemma lower_ascii: "list_all is_ascii s \<Longrightarrow> lower unicode_lower s = map lower_char s"
  by (simp add: lower_def)

lemma dict_of_foldl:
  "foldl (\<lambda>m (k, v). m(k \<mapsto> v)) m kvs = m ++ map_of (rev kvs)"
  by (induction kvs arbitrary: m) (auto simp: map_add_upd_left)

lemma dict_of_map_of: "dict_of kvs = map_of (rev kvs)"
  by (simp add: dict_of_def dict_of_foldl)

lemma store_loop_lookup:
  "foldl (\<lambda>m c. m((sfips, lower unicode_lower c) \<mapsto> stat)) tbl cs k =
     (if k \<in> set (map (\<lambda>c. (sfips, lower unicode_lower c)) cs) then Some stat else tbl k)"
  by (induction cs arbitrary: tbl) auto

lemma add_batch_lookup:
  "add_batch unicode_lower tbl b k =
     (if writes unicode_lower b k then Some (snd (snd b)) else tbl k)"
  by (cases b) (simp add: add_batch_def add_def writes_def store_loop_lookup split: option.splits)

lemma batches_none:
  "filter (\<lambda>b. writes unicode_lower b k) bs = [] \<Longrightarrow>
   foldl (add_batch unicode_lower) m bs k = m k"
  by (induction bs rule: rev_induct) (auto simp: add_batch_lookup split: if_splits)

lemma batches_last:
  "filter (\<lambda>b. writes unicode_lower b k) bs \<noteq> [] \<Longrightarrow>
   foldl (add_batch unicode_lower) m bs k =
     Some (snd (snd (last (filter (\<lambda>b. writes unicode_lower b k) bs))))"
  by (induction bs rule: rev_induct) (auto simp: add_batch_lookup split: if_splits)

lemma fips_of_state:
  "STATE_NAME_TO_FIPS ''Arkansas'' = Some ''05''"
  "STATE_NAME_TO_FIPS ''Texas'' = Some ''48''"
  "STATE_NAME_TO_FIPS ''Mississippi'' = Some ''28''"
  "STATE_NAME_TO_FIPS ''Florida'' = Some ''12''"
  "STATE_NAME_TO_FIPS ''South Dakota'' = Some ''46''"
  "STATE_NAME_TO_FIPS ''Alabama'' = Some ''01''"
  "STATE_NAME_TO_FIPS ''Kentucky'' = Some ''21''"
  "STATE_NAME_TO_FIPS ''Tennessee'' = Some ''47''"
  "STATE_NAME_TO_FIPS ''Georgia'' = Some ''13''"
  by (simp_all add: STATE_NAME_TO_FIPS_def dict_of_def STATE_FIPS_TO_NAME_items_def)

lemma add_lookup:
  "add unicode_lower tbl state_name county_list stat (f, n) =
     (case STATE_NAME_TO_FIPS state_name of
        None \<Rightarrow> tbl (f, n)
      | Some sfips \<Rightarrow>
          if sfips = [] then tbl (f, n)
          else if f = sfips then
            (if n \<in> set (map (lower unicode_lower) county_list) then Some stat else tbl (f, n))
          else tbl (f, n))"
  by (auto simp: add_def store_loop_lookup split: option.splits)

lemmas status_lookup =
  COUNTY_STATUS_MAP_def build_status_map_def status_batches_def add_batch_def add_lookup
  fips_of_state lower_def is_ascii_Char lower_char_Char
  STATUS_DRY_def STATUS_MOIST_def STATUS_WET_def

section \<open>The joined outputs and the state codes\<close>

lemma zip_map_same: "zip (map f xs) (map g xs) = map (\<lambda>x. (f x, g x)) xs"
  by (induction xs) simp_all

lemma zip_self_map: "zip xs (map g xs) = map (\<lambda>x. (x, g x)) xs"
  by (induction xs) simp_all

text \<open>
  What the joiner returns: it raises when no row is kept, and otherwise gives one table
  row and one feature for every kept row, in order.
\<close>

lemma build_county_dataset_result:
  "build_county_dataset unicode_lower simplify geometry_json gdf =
     (if filter (\<lambda>r. STATEFP r \<in> valid_states) gdf = [] then Inl ValueError
      else Inr
        (map (\<lambda>g. \<lparr>fips = GEOID g, county = NAME g, state = STATE_FIPS_TO_NAME (STATEFP g),
                   status = get_status unicode_lower g\<rparr>)
           (filter (\<lambda>r. STATEFP r \<in> valid_states) gdf),
         \<lparr>geojson_type = ''FeatureCollection'',
          features =
            map (\<lambda>g. \<lparr>feature_type = ''Feature'', feature_id = GEOID g, prop_name = NAME g,
                      prop_state = STATE_FIPS_TO_NAME (STATEFP g),
                      feature_geometry = geometry_json (simplify (geometry g))\<rparr>)
              (filter (\<lambda>r. STATEFP r \<in> valid_states) gdf)\<rparr>))"
  by (simp add: build_county_dataset_def DataFrame_def Let_def zip_map_same zip_self_map)

lemma table_of_frame:
  "build_county_dataset unicode_lower simplify geometry_json gdf = Inr (df, geojson) \<Longrightarrow>
   df = map (\<lambda>g. \<lparr>fips = GEOID g, county = NAME g, state = STATE_FIPS_TO_NAME (STATEFP g),
                  status = get_status unicode_lower g\<rparr>)
          (filter (\<lambda>r. STATEFP r \<in> valid_states) gdf)"
  by (simp add: build_county_dataset_result split: if_splits)

lemma features_of_frame:
  "build_county_dataset unicode_lower simplify geometry_json gdf = Inr (df, geojson) \<Longrightarrow>
   features geojson =
     map (\<lambda>g. \<lparr>feature_type = ''Feature'', feature_id = GEOID g, prop_name = NAME g,
               prop_state = STATE_FIPS_TO_NAME (STATEFP g),
               feature_geometry = geometry_json (simplify (geometry g))\<rparr>)
       (filter (\<lambda>r. STATEFP r \<in> valid_states) gdf)"
  by (auto simp: build_county_dataset_result split: if_splits)

lemma table_and_features_aligned:
  assumes "build_county_dataset unicode_lower simplify geometry_json gdf = Inr (df, geojson)"
  shows "length df = length (filter (\<lambda>r. STATEFP r \<in> valid_states) gdf)"
    and "map fips df = map GEOID (filter (\<lambda>r. STATEFP r \<in> valid_states) gdf)"
    and "length (features geojson) = length df"
    and "map feature_id (features geojson) = map fips df"
  by (simp_all add: table_of_frame [OF assms] features_of_frame [OF assms] comp_def)

text \<open>
  The literal of \<open>STATE_FIPS_TO_NAME\<close> repeats no code and no name: the items the
  comprehension of \<open>STATE_NAME_TO_FIPS\<close> runs over are the entries of the literal, and
  the inverted dict has an entry for each of them.
\<close>

lemma state_codes_distinct: "distinct (map fst STATE_FIPS_TO_NAME_items)"
  by (simp add: STATE_FIPS_TO_NAME_items_def)

lemma state_names_distinct: "distinct (map snd STATE_FIPS_TO_NAME_items)"
  by (simp add: STATE_FIPS_TO_NAME_items_def)

lemma state_codes: "map fst STATE_FIPS_TO_NAME_items = states_and_dc_fips @ [puerto_rico_fips]"
  by (simp add: STATE_FIPS_TO_NAME_items_def states_and_dc_fips_def puerto_rico_fips_def)

lemma map_fst_swap: "map fst (map (\<lambda>(k, v). (v, k)) xs) = map snd xs"
  by (induction xs) auto

lemma name_to_fips_inverse:
  assumes "STATE_FIPS_TO_NAME f = Some n"
  shows "STATE_NAME_TO_FIPS n = Some f"
proof -
  let ?swapped = "map (\<lambda>(k, v). (v, k)) STATE_FIPS_TO_NAME_items"
  have "(f, n) \<in> set STATE_FIPS_TO_NAME_items"
    using assms by (auto simp: STATE_FIPS_TO_NAME_def dict_of_map_of dest: map_of_SomeD)
  then have "(n, f) \<in> set (rev ?swapped)"
    by force
  moreover have "distinct (map fst ?swapped)"
    using state_names_distinct by (simp only: map_fst_swap)
  then have "distinct (map fst (rev ?swapped))"
    by (metis distinct_rev rev_map)
  ultimately show ?thesis
    unfolding STATE_NAME_TO_FIPS_def dict_of_map_of by (rule map_of_is_SomeI [rotated])
qed

lemma in_valid_states:
  "x \<in> valid_states \<longleftrightarrow> x \<in> set states_and_dc_fips \<or> x = puerto_rico_fips"
  by (auto simp: valid_states_def state_codes)

lemma table_row_origin:
  assumes "build_county_dataset unicode_lower simplify geometry_json gdf = Inr (df, geojson)"
    and "r \<in> set df"
  obtains g where "g \<in> set gdf" "STATEFP g \<in> valid_states" "fips r = GEOID g"
    "county r = NAME g" "state r = STATE_FIPS_TO_NAME (STATEFP g)"
    "status r = get_status unicode_lower g"
  using assms(2) unfolding table_of_frame [OF assms(1)] by auto

section \<open>The properties\<close>

subsection \<open>The regions the joiner keeps\<close>

text \<open>
  C1, as the code has it. Whenever the joiner returns, the table and the geometry
  collection hold, in order, exactly the regions whose state code is a key of
  \<open>STATE_FIPS_TO_NAME\<close>: the codes of the 50 states, of the District of Columbia and of
  Puerto Rico. No code of another territory (American Samoa, Guam, the Northern Mariana
  Islands, the US Virgin Islands) is among them, so no region of those territories is
  among the kept ones.
\<close>

theorem joiner_keeps_states_dc_and_puerto_rico:
  assumes "build_county_dataset unicode_lower simplify geometry_json gdf = Inr (df, geojson)"
  shows "map fips df =
      map GEOID (filter (\<lambda>r. STATEFP r \<in> set states_and_dc_fips \<or> STATEFP r = puerto_rico_fips) gdf) \<and>
    map feature_id (features geojson) =
      map GEOID (filter (\<lambda>r. STATEFP r \<in> set states_and_dc_fips \<or> STATEFP r = puerto_rico_fips) gdf) \<and>
    set other_territory_fips \<inter> valid_states = {} \<and>
    filter (\<lambda>r. STATEFP r \<in> set other_territory_fips)
      (filter (\<lambda>r. STATEFP r \<in> set states_and_dc_fips \<or> STATEFP r = puerto_rico_fips) gdf) = []"
proof -
  have kept: "filter (\<lambda>r. STATEFP r \<in> valid_states) gdf =
      filter (\<lambda>r. STATEFP r \<in> set states_and_dc_fips \<or> STATEFP r = puerto_rico_fips) gdf"
    by (simp only: in_valid_states)
  have other: "x \<notin> valid_states" if "x \<in> set other_territory_fips" for x
    using that
    by (auto simp: in_valid_states other_territory_fips_def states_and_dc_fips_def
        puerto_rico_fips_def)
  then have disjoint: "set other_territory_fips \<inter> valid_states = {}"
    by blast
  have none: "filter (\<lambda>r. STATEFP r \<in> set other_territory_fips)
      (filter (\<lambda>r. STATEFP r \<in> valid_states) gdf) = []"
    using other by (auto simp: filter_empty_conv)
  have "map fips df = map GEOID (filter (\<lambda>r. STATEFP r \<in> valid_states) gdf)"
    by (rule table_and_features_aligned(2) [OF assms])
  moreover have "map feature_id (features geojson) =
      map GEOID (filter (\<lambda>r. STATEFP r \<in> valid_states) gdf)"
    by (simp only: table_and_features_aligned(2,4) [OF assms])
  ultimately show ?thesis
    using disjoint none by (simp only: kept simp_thms)
qed

theorem joiner_keeps_states_dc_and_puerto_rico_witness:
  "\<exists>df geojson.
     build_county_dataset id id id
      [\<lparr>GEOID = ''48033'', STATEFP = ''48'', NAME = ''Borden'', geometry = ()\<rparr>,
       \<lparr>GEOID = ''66010'', STATEFP = ''66'', NAME = ''Guam'', geometry = ()\<rparr>,
       \<lparr>GEOID = ''72001'', STATEFP = ''72'', NAME = ''Adjuntas'', geometry = ()\<rparr>] = Inr (df, geojson) \<and>
     map fips df = [''48033'', ''72001''] \<and>
     map feature_id (features geojson) = [''48033'', ''72001'']"
proof -
  let ?gdf = "[\<lparr>GEOID = ''48033'', STATEFP = ''48'', NAME = ''Borden'', geometry = ()\<rparr>,
       \<lparr>GEOID = ''66010'', STATEFP = ''66'', NAME = ''Guam'', geometry = ()\<rparr>,
       \<lparr>GEOID = ''72001'', STATEFP = ''72'', NAME = ''Adjuntas'', geometry = ()\<rparr>]"
  have kept: "filter (\<lambda>r. STATEFP r \<in> set states_and_dc_fips \<or> STATEFP r = puerto_rico_fips) ?gdf =
      [\<lparr>GEOID = ''48033'', STATEFP = ''48'', NAME = ''Borden'', geometry = ()\<rparr>, \<lparr>GEOID = ''72001'', STATEFP = ''72'', NAME = ''Adjuntas'', geometry = ()\<rparr>]"
    by (simp add: states_and_dc_fips_def puerto_rico_fips_def)
  then have "filter (\<lambda>r. STATEFP r \<in> valid_states) ?gdf \<noteq> []"
    by (simp only: in_valid_states) simp
  then obtain df and geojson :: "unit geojson"
    where built: "build_county_dataset id id id ?gdf = Inr (df, geojson)"
    by (simp add: build_county_dataset_result)
  note inst = joiner_keeps_states_dc_and_puerto_rico [OF built, unfolded kept]
  show ?thesis
  proof (intro exI conjI)
    show "build_county_dataset id id id ?gdf = Inr (df, geojson)"
      by (rule built)
    show "map fips df = [''48033'', ''72001'']"
      using inst by simp
    show "map feature_id (features geojson) = [''48033'', ''72001'']"
      using inst by simp
  qed
qed

text \<open>
  The claim as the specification states it fails on a region of Puerto Rico, a territory:
  its code \<open>72\<close> is not one of the 51 codes of the states and the District of Columbia,
  and the joiner keeps the region, in the table and in the geometry collection.
\<close>

theorem joiner_keeps_puerto_rico:
  "''72'' \<notin> set states_and_dc_fips \<and>
   STATE_FIPS_TO_NAME ''72'' = Some ''Puerto Rico'' \<and>
   build_county_dataset id id id
     [\<lparr>GEOID = ''72001'', STATEFP = ''72'', NAME = ''Adjuntas'', geometry = ()\<rparr>] =
   Inr ([\<lparr>fips = ''72001'', county = ''Adjuntas'', state = Some ''Puerto Rico'', status = STATUS_WET\<rparr>],
        \<lparr>geojson_type = ''FeatureCollection'',
         features = [\<lparr>feature_type = ''Feature'', feature_id = ''72001'', prop_name = ''Adjuntas'',
                      prop_state = Some ''Puerto Rico'', feature_geometry = ()\<rparr>]\<rparr>)"
proof -
  have name: "STATE_FIPS_TO_NAME ''72'' = Some ''Puerto Rico''"
    by (simp add: STATE_FIPS_TO_NAME_def dict_of_def STATE_FIPS_TO_NAME_items_def)
  have valid: "''72'' \<in> valid_states"
    by (simp add: in_valid_states puerto_rico_fips_def)
  have wet: "get_status id \<lparr>GEOID = ''72001'', STATEFP = ''72'', NAME = ''Adjuntas'', geometry = ()\<rparr> =
      STATUS_WET"
    by (simp add: get_status_def status_lookup)
  have "''72'' \<notin> set states_and_dc_fips"
    by (simp add: states_and_dc_fips_def)
  then show ?thesis
    by (simp add: build_county_dataset_result name valid wet)
qed

subsection \<open>Unlisted keys\<close>

text \<open>
  C2. A region whose key (state code, lowercased county name) is not in the table built by
  \<open>_build_status_map\<close> gets the status Wet.
\<close>

theorem unlisted_key_resolves_wet:
  "(STATEFP row, lower unicode_lower (NAME row)) \<notin> dom (build_status_map unicode_lower) \<Longrightarrow>
   get_status unicode_lower row = STATUS_WET"
  by (simp add: get_status_def COUNTY_STATUS_MAP_def domIff)

theorem unlisted_key_resolves_wet_witness:
  "(''10'', lower id ''Kent'') \<notin> dom (build_status_map id) \<and>
   get_status id \<lparr>GEOID = ''10001'', STATEFP = ''10'', NAME = ''Kent'', geometry = ()\<rparr> = STATUS_WET"
proof -
  have "build_status_map id (''10'', lower id ''Kent'') = None"
    by (simp add: status_lookup)
  then have absent: "(''10'', lower id ''Kent'') \<notin> dom (build_status_map id)"
    by (simp add: domIff)
  show ?thesis
    using absent
      unlisted_key_resolves_wet
        [of "\<lparr>GEOID = ''10001'', STATEFP = ''10'', NAME = ''Kent'', geometry = ()\<rparr>" id]
    by simp
qed

subsection \<open>The join is total and three-valued\<close>

lemma batches_values:
  "foldl (add_batch unicode_lower) m bs k = Some s \<Longrightarrow>
   m k = Some s \<or> s \<in> set (map (\<lambda>b. snd (snd b)) bs)"
  by (induction bs rule: rev_induct) (auto simp: add_batch_lookup split: if_splits)

lemma built_values:
  "build_status_map unicode_lower k = Some s \<Longrightarrow> s = STATUS_DRY \<or> s = STATUS_MOIST"
  unfolding build_status_map_def
  by (drule batches_values) (auto simp: status_batches_def)

lemma get_status_values:
  "get_status unicode_lower row = STATUS_DRY \<or> get_status unicode_lower row = STATUS_MOIST \<or>
   get_status unicode_lower row = STATUS_WET"
  by (auto simp: get_status_def COUNTY_STATUS_MAP_def split: option.splits dest: built_values)

text \<open>
  C3. Whenever a region is in the filtered collection, the joiner returns a table whose
  status column is \<open>get_status\<close> of each kept region, in order: every kept region is
  given a status. That status is Dry, Moist or Wet, three different values, and two
  regions (of whatever identifier and geometry) with the same state code and the same
  lowercased name get the same status.
\<close>

theorem join_total_three_valued:
  "(r \<in> set (filter (\<lambda>r. STATEFP r \<in> valid_states) gdf) \<longrightarrow>
      (\<exists>df geojson.
         build_county_dataset unicode_lower simplify geometry_json gdf = Inr (df, geojson) \<and>
         map status df = map (get_status unicode_lower) (filter (\<lambda>r. STATEFP r \<in> valid_states) gdf))) \<and>
   (get_status unicode_lower row = STATUS_DRY \<or> get_status unicode_lower row = STATUS_MOIST \<or>
    get_status unicode_lower row = STATUS_WET) \<and>
   STATUS_DRY \<noteq> STATUS_MOIST \<and> STATUS_DRY \<noteq> STATUS_WET \<and> STATUS_MOIST \<noteq> STATUS_WET \<and>
   (STATEFP row = STATEFP row' \<and> lower unicode_lower (NAME row) = lower unicode_lower (NAME row') \<longrightarrow>
      get_status unicode_lower row = get_status unicode_lower row')"
proof -
  have "\<exists>df geojson.
      build_county_dataset unicode_lower simplify geometry_json gdf = Inr (df, geojson) \<and>
      map status df = map (get_status unicode_lower) (filter (\<lambda>r. STATEFP r \<in> valid_states) gdf)"
    if "r \<in> set (filter (\<lambda>r. STATEFP r \<in> valid_states) gdf)"
  proof -
    from that have "filter (\<lambda>r. STATEFP r \<in> valid_states) gdf \<noteq> []"
      by (metis empty_iff empty_set)
    then show ?thesis
      by (simp add: build_county_dataset_result comp_def)
  qed
  moreover have "STATUS_DRY \<noteq> STATUS_MOIST \<and> STATUS_DRY \<noteq> STATUS_WET \<and> STATUS_MOIST \<noteq> STATUS_WET"
    by (simp add: STATUS_DRY_def STATUS_MOIST_def STATUS_WET_def)
  moreover have "get_status unicode_lower row = get_status unicode_lower row'"
    if "STATEFP row = STATEFP row'" "lower unicode_lower (NAME row) = lower unicode_lower (NAME row')"
    using that by (simp add: get_status_def)
  ultimately show ?thesis
    using get_status_values [of unicode_lower row] by blast
qed

theorem join_total_three_valued_witness:
  "(\<exists>df geojson.
      build_county_dataset id id id
       [\<lparr>GEOID = ''48033'', STATEFP = ''48'', NAME = ''Borden'', geometry = (1::nat)\<rparr>,
       \<lparr>GEOID = ''66010'', STATEFP = ''66'', NAME = ''Guam'', geometry = 2\<rparr>,
       \<lparr>GEOID = ''47127'', STATEFP = ''47'', NAME = ''Moore'', geometry = 3\<rparr>,
       \<lparr>GEOID = ''06037'', STATEFP = ''06'', NAME = ''Los Angeles'', geometry = 4\<rparr>] = Inr (df, geojson) \<and>
      map status df = [STATUS_DRY, STATUS_MOIST, STATUS_WET]) \<and>
   get_status id \<lparr>GEOID = ''47127'', STATEFP = ''47'', NAME = ''Moore'', geometry = (3::nat)\<rparr> =
     get_status id \<lparr>GEOID = ''x'', STATEFP = ''47'', NAME = ''MOORE'', geometry = ()\<rparr>"
proof -
  let ?gdf = "[\<lparr>GEOID = ''48033'', STATEFP = ''48'', NAME = ''Borden'', geometry = (1::nat)\<rparr>,
       \<lparr>GEOID = ''66010'', STATEFP = ''66'', NAME = ''Guam'', geometry = 2\<rparr>,
       \<lparr>GEOID = ''47127'', STATEFP = ''47'', NAME = ''Moore'', geometry = 3\<rparr>,
       \<lparr>GEOID = ''06037'', STATEFP = ''06'', NAME = ''Los Angeles'', geometry = 4\<rparr>]"
  let ?r = "\<lparr>GEOID = ''48033'', STATEFP = ''48'', NAME = ''Borden'', geometry = (1::nat)\<rparr>"
  let ?a = "\<lparr>GEOID = ''47127'', STATEFP = ''47'', NAME = ''Moore'', geometry = (3::nat)\<rparr>"
  let ?b = "\<lparr>GEOID = ''x'', STATEFP = ''47'', NAME = ''MOORE'', geometry = ()\<rparr>"
  have kept: "filter (\<lambda>r. STATEFP r \<in> valid_states) ?gdf =
      [\<lparr>GEOID = ''48033'', STATEFP = ''48'', NAME = ''Borden'', geometry = 1\<rparr>,
       \<lparr>GEOID = ''47127'', STATEFP = ''47'', NAME = ''Moore'', geometry = 3\<rparr>,
       \<lparr>GEOID = ''06037'', STATEFP = ''06'', NAME = ''Los Angeles'', geometry = 4\<rparr>]"
    by (simp add: valid_states_def STATE_FIPS_TO_NAME_items_def)
  have same: "STATEFP ?a = STATEFP ?b \<and> lower id (NAME ?a) = lower id (NAME ?b)"
    by (simp add: lower_def is_ascii_Char lower_char_Char)
  note inst = join_total_three_valued [of ?r ?gdf id id id ?a ?b, unfolded kept]
  have "get_status id ?a = get_status id ?b"
    using inst same by blast
  moreover have "\<exists>df geojson. build_county_dataset id id id ?gdf = Inr (df, geojson) \<and>
      map status df = [STATUS_DRY, STATUS_MOIST, STATUS_WET]"
    using inst by (simp add: get_status_def status_lookup)
  ultimately show ?thesis by blast
qed

subsection \<open>Last write wins\<close>

text \<open>
  C4. Last write wins. For a list of batches run from the empty table, a key written by
  more than one batch holds the status of the last batch that writes it, and a key
  written by exactly one batch holds that batch's status. \<open>_build_status_map\<close> is the run
  of \<open>status_batches\<close>, so every key one of its batches writes holds the status of the
  last such batch.
\<close>

theorem last_write_wins:
  "(1 < length (filter (\<lambda>b. writes unicode_lower b k) bs) \<longrightarrow>
      foldl (add_batch unicode_lower) Map.empty bs k =
        Some (snd (snd (last (filter (\<lambda>b. writes unicode_lower b k) bs))))) \<and>
   (length (filter (\<lambda>b. writes unicode_lower b k) bs) = 1 \<longrightarrow>
      foldl (add_batch unicode_lower) Map.empty bs k =
        Some (snd (snd (hd (filter (\<lambda>b. writes unicode_lower b k) bs))))) \<and>
   (filter (\<lambda>b. writes unicode_lower b k) status_batches \<noteq> [] \<longrightarrow>
      build_status_map unicode_lower k =
        Some (snd (snd (last (filter (\<lambda>b. writes unicode_lower b k) status_batches)))))"
proof (intro conjI impI)
  let ?ws = "filter (\<lambda>b. writes unicode_lower b k) bs"
  {
    assume "1 < length ?ws"
    then have "?ws \<noteq> []" by auto
    then show "foldl (add_batch unicode_lower) Map.empty bs k = Some (snd (snd (last ?ws)))"
      by (rule batches_last)
  next
    assume one: "length ?ws = 1"
    then have ne: "?ws \<noteq> []" by auto
    have "hd ?ws = last ?ws"
      using one by (cases ?ws) simp_all
    with ne show "foldl (add_batch unicode_lower) Map.empty bs k = Some (snd (snd (hd ?ws)))"
      by (simp add: batches_last)
  next
    assume "filter (\<lambda>b. writes unicode_lower b k) status_batches \<noteq> []"
    then show "build_status_map unicode_lower k =
        Some (snd (snd (last (filter (\<lambda>b. writes unicode_lower b k) status_batches))))"
      unfolding build_status_map_def by (rule batches_last)
  }
qed

lemma writes_eval:
  "writes unicode_lower (state_name, county_list, stat) (f, n) =
     (case STATE_NAME_TO_FIPS state_name of
        None \<Rightarrow> False
      | Some sfips \<Rightarrow>
          sfips \<noteq> [] \<and> f = sfips \<and> n \<in> set (map (lower unicode_lower) county_list))"
  by (auto simp: writes_def split: option.splits)

theorem last_write_wins_witness:
  "1 < length (filter (\<lambda>b. writes id b (''48'', ''kent''))
         [(''Texas'', [''Kent''], STATUS_DRY), (''Texas'', [''KENT'', ''Borden''], STATUS_MOIST)]) \<and>
   foldl (add_batch id) Map.empty
     [(''Texas'', [''Kent''], STATUS_DRY), (''Texas'', [''KENT'', ''Borden''], STATUS_MOIST)]
     (''48'', ''kent'') = Some STATUS_MOIST \<and>
   length (filter (\<lambda>b. writes id b (''48'', ''borden''))
         [(''Texas'', [''Kent''], STATUS_DRY), (''Texas'', [''KENT'', ''Borden''], STATUS_MOIST)]) = 1 \<and>
   foldl (add_batch id) Map.empty
     [(''Texas'', [''Kent''], STATUS_DRY), (''Texas'', [''KENT'', ''Borden''], STATUS_MOIST)]
     (''48'', ''borden'') = Some STATUS_MOIST \<and>
   filter (\<lambda>b. writes id b (''12'', ''liberty'')) status_batches \<noteq> [] \<and>
   build_status_map id (''12'', ''liberty'') = Some STATUS_DRY"
proof -
  let ?bs = "[(''Texas'', [''Kent''], STATUS_DRY), (''Texas'', [''KENT'', ''Borden''], STATUS_MOIST)]"
  have kent: "filter (\<lambda>b. writes id b (''48'', ''kent'')) ?bs = ?bs"
    by (simp add: writes_eval fips_of_state lower_def is_ascii_Char lower_char_Char)
  have borden: "filter (\<lambda>b. writes id b (''48'', ''borden'')) ?bs =
      [(''Texas'', [''KENT'', ''Borden''], STATUS_MOIST)]"
    by (simp add: writes_eval fips_of_state lower_def is_ascii_Char lower_char_Char)
  have liberty: "filter (\<lambda>b. writes id b (''12'', ''liberty'')) status_batches =
      [(''Florida'', [''Liberty''], STATUS_DRY)]"
    by (simp add: status_batches_def writes_eval fips_of_state lower_def is_ascii_Char
        lower_char_Char)
  note twice = last_write_wins [of id "(''48'', ''kent'')" ?bs, unfolded kent]
  note once = last_write_wins [of id "(''48'', ''borden'')" ?bs, unfolded borden]
  note built = last_write_wins [of id "(''12'', ''liberty'')" "[]", unfolded liberty]
  show ?thesis
    unfolding kent borden liberty using twice once built by simp
qed

subsection \<open>Unknown state names\<close>

text \<open>
  C5. A call of \<open>add\<close> with a state name that is not a key of \<open>STATE_NAME_TO_FIPS\<close> returns
  at once: the status mapping is the one passed in, whatever the batch's counties and
  status. The model of \<open>add\<close> is a total function, no branch of it raises.
\<close>

theorem add_unknown_state_unchanged:
  "STATE_NAME_TO_FIPS state_name = None \<Longrightarrow>
   add unicode_lower tbl state_name county_list stat = tbl"
  by (simp add: add_def)

theorem add_unknown_state_unchanged_witness:
  "STATE_NAME_TO_FIPS ''Tennesee'' = None \<and>
   add id [(''48'', ''kent'') \<mapsto> STATUS_DRY] ''Tennesee'' [''Moore'', ''Kent''] STATUS_MOIST =
     [(''48'', ''kent'') \<mapsto> STATUS_DRY]"
proof -
  have none: "STATE_NAME_TO_FIPS ''Tennesee'' = None"
    by (simp add: STATE_NAME_TO_FIPS_def dict_of_def STATE_FIPS_TO_NAME_items_def)
  show ?thesis
    using none add_unknown_state_unchanged [OF none] by simp
qed

subsection \<open>The spot checks\<close>

lemma state_code_of_name:
  "STATE_FIPS_TO_NAME f = Some n \<Longrightarrow> STATE_NAME_TO_FIPS n = Some f' \<Longrightarrow> f = f'"
  by (drule name_to_fips_inverse) simp

text \<open>
  C6. The six spot checks of the specification. In the table joined from any geography
  collection, a row for Hot Spring, Arkansas has the status Wet, a row for Borden, Texas
  is Dry, Benton, Mississippi is Dry, Cullman, Alabama is Moist, Davidson, Tennessee is
  Wet and Moore, Tennessee is Moist.
\<close>

theorem spot_check_statuses:
  assumes "build_county_dataset unicode_lower simplify geometry_json gdf = Inr (df, geojson)"
    and "r \<in> set df"
  shows "(county r = ''Hot Spring'' \<and> state r = Some ''Arkansas'' \<longrightarrow> status r = STATUS_WET) \<and>
    (county r = ''Borden'' \<and> state r = Some ''Texas'' \<longrightarrow> status r = STATUS_DRY) \<and>
    (county r = ''Benton'' \<and> state r = Some ''Mississippi'' \<longrightarrow> status r = STATUS_DRY) \<and>
    (county r = ''Cullman'' \<and> state r = Some ''Alabama'' \<longrightarrow> status r = STATUS_MOIST) \<and>
    (county r = ''Davidson'' \<and> state r = Some ''Tennessee'' \<longrightarrow> status r = STATUS_WET) \<and>
    (county r = ''Moore'' \<and> state r = Some ''Tennessee'' \<longrightarrow> status r = STATUS_MOIST)"
proof -
  from assms obtain g where "g \<in> set gdf" and g: "county r = NAME g"
    "state r = STATE_FIPS_TO_NAME (STATEFP g)" "status r = get_status unicode_lower g"
    by (rule table_row_origin)
  have resolve: "status r =
      (case COUNTY_STATUS_MAP unicode_lower (f, lower unicode_lower c) of
         None \<Rightarrow> STATUS_WET | Some s \<Rightarrow> s)"
    if "county r = c" "state r = Some n" "STATE_NAME_TO_FIPS n = Some f" for c n f
  proof -
    have "STATEFP g = f"
      using that g by (auto intro: state_code_of_name)
    then show ?thesis
      using that g by (simp add: get_status_def)
  qed
  have "status r = STATUS_WET" if "county r = ''Hot Spring''" "state r = Some ''Arkansas''"
    using resolve [OF that fips_of_state(1)] by (simp add: status_lookup)
  moreover have "status r = STATUS_DRY" if "county r = ''Borden''" "state r = Some ''Texas''"
    using resolve [OF that fips_of_state(2)] by (simp add: status_lookup)
  moreover have "status r = STATUS_DRY" if "county r = ''Benton''" "state r = Some ''Mississippi''"
    using resolve [OF that fips_of_state(3)] by (simp add: status_lookup)
  moreover have "status r = STATUS_MOIST" if "county r = ''Cullman''" "state r = Some ''Alabama''"
    using resolve [OF that fips_of_state(6)] by (simp add: status_lookup)
  moreover have "status r = STATUS_WET" if "county r = ''Davidson''" "state r = Some ''Tennessee''"
    using resolve [OF that fips_of_state(8)] by (simp add: status_lookup)
  moreover have "status r = STATUS_MOIST" if "county r = ''Moore''" "state r = Some ''Tennessee''"
    using resolve [OF that fips_of_state(8)] by (simp add: status_lookup)
  ultimately show ?thesis by blast
qed

theorem spot_check_statuses_witness:
  "\<exists>df geojson.
     build_county_dataset id id id
      [\<lparr>GEOID = ''05059'', STATEFP = ''05'', NAME = ''Hot Spring'', geometry = ()\<rparr>,
       \<lparr>GEOID = ''48033'', STATEFP = ''48'', NAME = ''Borden'', geometry = ()\<rparr>,
       \<lparr>GEOID = ''28009'', STATEFP = ''28'', NAME = ''Benton'', geometry = ()\<rparr>,
       \<lparr>GEOID = ''01043'', STATEFP = ''01'', NAME = ''Cullman'', geometry = ()\<rparr>,
       \<lparr>GEOID = ''47037'', STATEFP = ''47'', NAME = ''Davidson'', geometry = ()\<rparr>,
       \<lparr>GEOID = ''47127'', STATEFP = ''47'', NAME = ''Moore'', geometry = ()\<rparr>] = Inr (df, geojson) \<and>
     map (\<lambda>r. (county r, state r, status r)) df =
     [(''Hot Spring'', Some ''Arkansas'', STATUS_WET),
      (''Borden'', Some ''Texas'', STATUS_DRY),
      (''Benton'', Some ''Mississippi'', STATUS_DRY),
      (''Cullman'', Some ''Alabama'', STATUS_MOIST),
      (''Davidson'', Some ''Tennessee'', STATUS_WET),
      (''Moore'', Some ''Tennessee'', STATUS_MOIST)]"
proof -
  let ?g1 = "\<lparr>GEOID = ''05059'', STATEFP = ''05'', NAME = ''Hot Spring'', geometry = ()\<rparr>"
  let ?g2 = "\<lparr>GEOID = ''48033'', STATEFP = ''48'', NAME = ''Borden'', geometry = ()\<rparr>"
  let ?g3 = "\<lparr>GEOID = ''28009'', STATEFP = ''28'', NAME = ''Benton'', geometry = ()\<rparr>"
  let ?g4 = "\<lparr>GEOID = ''01043'', STATEFP = ''01'', NAME = ''Cullman'', geometry = ()\<rparr>"
  let ?g5 = "\<lparr>GEOID = ''47037'', STATEFP = ''47'', NAME = ''Davidson'', geometry = ()\<rparr>"
  let ?g6 = "\<lparr>GEOID = ''47127'', STATEFP = ''47'', NAME = ''Moore'', geometry = ()\<rparr>"
  let ?gdf = "[?g1, ?g2, ?g3, ?g4, ?g5, ?g6]"
  have kept: "filter (\<lambda>r. STATEFP r \<in> valid_states) ?gdf = ?gdf"
    by (simp add: valid_states_def STATE_FIPS_TO_NAME_items_def)
  then obtain df and geojson :: "unit geojson"
    where built: "build_county_dataset id id id ?gdf = Inr (df, geojson)"
    by (simp add: build_county_dataset_result)
  have rows: "df =
      [\<lparr>fips = ''05059'', county = ''Hot Spring'', state = Some ''Arkansas'', status = get_status id ?g1\<rparr>,
       \<lparr>fips = ''48033'', county = ''Borden'', state = Some ''Texas'', status = get_status id ?g2\<rparr>,
       \<lparr>fips = ''28009'', county = ''Benton'', state = Some ''Mississippi'', status = get_status id ?g3\<rparr>,
       \<lparr>fips = ''01043'', county = ''Cullman'', state = Some ''Alabama'', status = get_status id ?g4\<rparr>,
       \<lparr>fips = ''47037'', county = ''Davidson'', state = Some ''Tennessee'', status = get_status id ?g5\<rparr>,
       \<lparr>fips = ''47127'', county = ''Moore'', state = Some ''Tennessee'', status = get_status id ?g6\<rparr>]"
    unfolding table_of_frame [OF built] kept
    by (simp add: STATE_FIPS_TO_NAME_def dict_of_def STATE_FIPS_TO_NAME_items_def)
  have s1: "get_status id ?g1 = STATUS_WET"
    using spot_check_statuses [OF built, of "\<lparr>fips = ''05059'', county = ''Hot Spring'', state = Some ''Arkansas'', status = get_status id ?g1\<rparr>"]
    by (simp add: rows)
  have s2: "get_status id ?g2 = STATUS_DRY"
    using spot_check_statuses [OF built, of "\<lparr>fips = ''48033'', county = ''Borden'', state = Some ''Texas'', status = get_status id ?g2\<rparr>"]
    by (simp add: rows)
  have s3: "get_status id ?g3 = STATUS_DRY"
    using spot_check_statuses [OF built, of "\<lparr>fips = ''28009'', county = ''Benton'', state = Some ''Mississippi'', status = get_status id ?g3\<rparr>"]
    by (simp add: rows)
  have s4: "get_status id ?g4 = STATUS_MOIST"
    using spot_check_statuses [OF built, of "\<lparr>fips = ''01043'', county = ''Cullman'', state = Some ''Alabama'', status = get_status id ?g4\<rparr>"]
    by (simp add: rows)
  have s5: "get_status id ?g5 = STATUS_WET"
    using spot_check_statuses [OF built, of "\<lparr>fips = ''47037'', county = ''Davidson'', state = Some ''Tennessee'', status = get_status id ?g5\<rparr>"]
    by (simp add: rows)
  have s6: "get_status id ?g6 = STATUS_MOIST"
    using spot_check_statuses [OF built, of "\<lparr>fips = ''47127'', county = ''Moore'', state = Some ''Tennessee'', status = get_status id ?g6\<rparr>"]
    by (simp add: rows)
  show ?thesis
  proof (intro exI conjI)
    show "build_county_dataset id id id ?gdf = Inr (df, geojson)"
      by (rule built)
    show "map (\<lambda>r. (county r, state r, status r)) df =
      [(''Hot Spring'', Some ''Arkansas'', STATUS_WET),
       (''Borden'', Some ''Texas'', STATUS_DRY),
       (''Benton'', Some ''Mississippi'', STATUS_DRY),
       (''Cullman'', Some ''Alabama'', STATUS_MOIST),
       (''Davidson'', Some ''Tennessee'', STATUS_WET),
       (''Moore'', Some ''Tennessee'', STATUS_MOIST)]"
      by (simp add: rows s1 s2 s3 s4 s5 s6)
  qed
qed

subsection \<open>Table and geometry are aligned\<close>

text \<open>
  C7. The table is to have one row per region of the filtered collection for every
  geography collection, so no row and no feature for a collection with no region in a
  kept state. There the joiner raises \<open>ValueError\<close> instead and gives neither table nor
  geometry: on the empty collection, and on a collection whose only region is in Guam.
  (Whenever it does return, \<open>table_and_features_aligned\<close> gives the alignment.)
\<close>

theorem joiner_raises_when_no_region_is_kept:
  "build_county_dataset unicode_lower simplify geometry_json [] = Inl ValueError \<and>
   build_county_dataset unicode_lower simplify geometry_json
     [\<lparr>GEOID = ''66010'', STATEFP = ''66'', NAME = ''Guam'', geometry = guam\<rparr>] = Inl ValueError"
proof -
  have "''66'' \<notin> valid_states"
    by (simp add: in_valid_states states_and_dc_fips_def puerto_rico_fips_def)
  then show ?thesis
    by (simp add: build_county_dataset_result)
qed

subsection \<open>Determinism of the table\<close>

lemma select_by_map: "select_by (map P xs) xs = filter P xs"
  by (induction xs) (simp_all add: select_by_def)

lemma zip_geometry:
  "map (\<lambda>(r, x). r\<lparr>geometry := x\<rparr>) (zip rows (map (\<lambda>r. simplify (geometry r)) rows)) =
     map (\<lambda>r. r\<lparr>geometry := simplify (geometry r)\<rparr>) rows"
  by (induction rows) simp_all

text \<open>
  What a run returns is a function of the dict object and of the rows of the caller's
  frame: the call raises when no row is kept, and otherwise gives one table row and one
  feature per kept row.
\<close>

lemma run_result:
  "fst (build_county_dataset_run unicode_lower simplify geometry_json caller_gdf mem) =
     (if filter (\<lambda>r. STATEFP r \<in> valid_states) (frame_rows (frame_objects mem caller_gdf)) = []
      then Inl ValueError
      else Inr
        (map (\<lambda>g. \<lparr>fips = GEOID g, county = NAME g, state = STATE_FIPS_TO_NAME (STATEFP g),
                   status = get_status_in (county_status_map_object mem) unicode_lower g\<rparr>)
           (filter (\<lambda>r. STATEFP r \<in> valid_states) (frame_rows (frame_objects mem caller_gdf))),
         \<lparr>geojson_type = ''FeatureCollection'',
          features =
            map (\<lambda>g. \<lparr>feature_type = ''Feature'', feature_id = GEOID g, prop_name = NAME g,
                      prop_state = STATE_FIPS_TO_NAME (STATEFP g),
                      feature_geometry = geometry_json (simplify (geometry g))\<rparr>)
              (filter (\<lambda>r. STATEFP r \<in> valid_states)
                (frame_rows (frame_objects mem caller_gdf)))\<rparr>))"
  by (simp add: build_county_dataset_run_def new_frame_def frame_select_def assign_status_def
      assign_state_name_def assign_geometry_def Let_def select_by_map DataFrame_def
      zip_map_same zip_geometry)

text \<open>
  What a run leaves: the dict object as it was, and every frame object that existed
  before the call as it was. The call writes to the frame objects it makes.
\<close>

lemma run_memory:
  assumes "q < allocated mem"
  shows "county_status_map_object
      (snd (build_county_dataset_run unicode_lower simplify geometry_json caller_gdf mem)) =
      county_status_map_object mem"
    and "frame_objects
      (snd (build_county_dataset_run unicode_lower simplify geometry_json caller_gdf mem)) q =
      frame_objects mem q"
  using assms
  by (simp_all add: build_county_dataset_run_def new_frame_def assign_status_def
      assign_state_name_def assign_geometry_def Let_def)

lemma get_status_in_table:
  "get_status_in (COUNTY_STATUS_MAP unicode_lower) unicode_lower = get_status unicode_lower"
  by (rule ext) (simp add: get_status_in_def get_status_def)

text \<open>
  C8. A run of the joiner on a frame object the caller holds, followed by a second run on
  the same object in the memory the first run leaves: the second run gives the table of
  the first, row for row and field for field, or raises as the first did, whatever the
  geometry library returns in either run. The first run leaves the status table and the
  caller's frame as they were. When the dict object is the table built at load, the run
  returns what \<open>build_county_dataset\<close> gives on the rows of the frame.
\<close>

theorem table_deterministic:
  assumes "caller_gdf < allocated mem"
    and "build_county_dataset_run unicode_lower simplify_a geometry_json_a caller_gdf mem =
      (result1, mem1)"
    and "build_county_dataset_run unicode_lower simplify_b geometry_json_b caller_gdf mem1 =
      (result2, mem2)"
  shows "tabular_output result2 = tabular_output result1 \<and>
    county_status_map_object mem1 = county_status_map_object mem \<and>
    frame_objects mem1 caller_gdf = frame_objects mem caller_gdf \<and>
    (county_status_map_object mem = COUNTY_STATUS_MAP unicode_lower \<longrightarrow>
       result1 = build_county_dataset unicode_lower simplify_a geometry_json_a
         (frame_rows (frame_objects mem caller_gdf)))"
proof -
  have table: "county_status_map_object mem1 = county_status_map_object mem"
    using run_memory(1) [OF assms(1), of unicode_lower simplify_a geometry_json_a caller_gdf]
    by (simp add: assms(2))
  have frame: "frame_objects mem1 caller_gdf = frame_objects mem caller_gdf"
    using run_memory(2) [OF assms(1), of unicode_lower simplify_a geometry_json_a caller_gdf]
    by (simp add: assms(2))
  have first: "result1 =
      fst (build_county_dataset_run unicode_lower simplify_a geometry_json_a caller_gdf mem)"
    by (simp add: assms(2))
  have second: "result2 =
      fst (build_county_dataset_run unicode_lower simplify_b geometry_json_b caller_gdf mem1)"
    by (simp add: assms(3))
  have "tabular_output result2 = tabular_output result1"
    unfolding first second run_result table frame by (simp add: tabular_output_def)
  moreover have "result1 = build_county_dataset unicode_lower simplify_a geometry_json_a
      (frame_rows (frame_objects mem caller_gdf))"
    if "county_status_map_object mem = COUNTY_STATUS_MAP unicode_lower"
    unfolding first run_result build_county_dataset_result that get_status_in_table ..
  ultimately show ?thesis
    using table frame by blast
qed

theorem table_deterministic_witness:
  "(0::nat) < allocated
      \<lparr>county_status_map_object = COUNTY_STATUS_MAP id,
       frame_objects = (\<lambda>n. \<lparr>frame_rows =
           [\<lparr>GEOID = ''48033'', STATEFP = ''48'', NAME = ''Borden'', geometry = ()\<rparr>,
            \<lparr>GEOID = ''66010'', STATEFP = ''66'', NAME = ''Guam'', geometry = ()\<rparr>],
         status_column = None, state_name_column = None\<rparr>),
       allocated = 1\<rparr> \<and>
   tabular_output (fst (build_county_dataset_run id id id 0
      (snd (build_county_dataset_run id id id 0
        \<lparr>county_status_map_object = COUNTY_STATUS_MAP id,
         frame_objects = (\<lambda>n. \<lparr>frame_rows =
             [\<lparr>GEOID = ''48033'', STATEFP = ''48'', NAME = ''Borden'', geometry = ()\<rparr>,
              \<lparr>GEOID = ''66010'', STATEFP = ''66'', NAME = ''Guam'', geometry = ()\<rparr>],
           status_column = None, state_name_column = None\<rparr>),
         allocated = 1\<rparr>)))) =
   (Inr [\<lparr>fips = ''48033'', county = ''Borden'', state = Some ''Texas'', status = STATUS_DRY\<rparr>]
      :: error + county_record list)"
proof -
  let ?mem = "\<lparr>county_status_map_object = COUNTY_STATUS_MAP id,
       frame_objects = (\<lambda>n. \<lparr>frame_rows =
           [\<lparr>GEOID = ''48033'', STATEFP = ''48'', NAME = ''Borden'', geometry = ()\<rparr>,
            \<lparr>GEOID = ''66010'', STATEFP = ''66'', NAME = ''Guam'', geometry = ()\<rparr>],
         status_column = None, state_name_column = None\<rparr>),
       allocated = 1\<rparr>"
  let ?run1 = "build_county_dataset_run id id (id :: unit \<Rightarrow> unit) 0 ?mem"
  let ?run2 = "build_county_dataset_run id id (id :: unit \<Rightarrow> unit) 0 (snd ?run1)"
  have exists: "(0::nat) < allocated ?mem"
    by simp
  have first: "tabular_output (fst ?run1) =
      Inr [\<lparr>fips = ''48033'', county = ''Borden'', state = Some ''Texas'', status = STATUS_DRY\<rparr>]"
    by (simp add: run_result tabular_output_def valid_states_def STATE_FIPS_TO_NAME_def
        dict_of_def STATE_FIPS_TO_NAME_items_def get_status_in_def status_lookup)
  have "tabular_output (fst ?run2) = tabular_output (fst ?run1)"
    using table_deterministic
      [where unicode_lower = id and simplify_a = id and simplify_b = id
        and geometry_json_a = "id :: unit \<Rightarrow> unit" and geometry_json_b = "id :: unit \<Rightarrow> unit",
        OF exists prod.collapse [symmetric] prod.collapse [symmetric]]
    by (rule conjunct1)
  with exists first show ?thesis
    by simp
qed

subsection \<open>The verifier\<close>

lemma verify_step_verdict:
  "verify_step df (out, all_pass) chk =
     (out @ [(expected_verdict df chk, fst chk, fst (snd chk))],
      all_pass \<and> expected_verdict df chk = PASS)"
  by (cases chk) (auto simp: expected_verdict_def split: list.splits)

lemma verify_loop:
  "foldl (verify_step df) (out, all_pass) cs =
     (out @ map (\<lambda>chk. (expected_verdict df chk, fst chk, fst (snd chk))) cs,
      all_pass \<and> list_all (\<lambda>chk. expected_verdict df chk = PASS) cs)"
  by (induction cs arbitrary: out all_pass) (simp_all add: verify_step_verdict)

lemma expected_verdict_PASS:
  "expected_verdict df chk = PASS \<longleftrightarrow>
     (case chk of (cnty, st, expected, note) \<Rightarrow>
        select_rows df cnty st \<noteq> [] \<and> status (hd (select_rows df cnty st)) = expected)"
  by (cases chk) (simp add: expected_verdict_def)

lemma joined_rows_agree:
  assumes "build_county_dataset unicode_lower simplify geometry_json gdf = Inr (df, geojson)"
    and "r \<in> set df" and "r' \<in> set df"
    and "county r = county r'" and "state r = Some st" and "state r' = Some st"
  shows "status r = status r'"
proof -
  from assms(1,2) obtain g where "g \<in> set gdf" and g: "county r = NAME g"
    "state r = STATE_FIPS_TO_NAME (STATEFP g)" "status r = get_status unicode_lower g"
    by (rule table_row_origin)
  from assms(1,3) obtain g' where "g' \<in> set gdf" and g': "county r' = NAME g'"
    "state r' = STATE_FIPS_TO_NAME (STATEFP g')" "status r' = get_status unicode_lower g'"
    by (rule table_row_origin)
  have "STATE_FIPS_TO_NAME (STATEFP g) = Some st"
    using assms(5) g by simp
  then have code: "STATE_NAME_TO_FIPS st = Some (STATEFP g)"
    by (rule name_to_fips_inverse)
  have "STATE_FIPS_TO_NAME (STATEFP g') = Some st"
    using assms(6) g' by simp
  then have "STATE_NAME_TO_FIPS st = Some (STATEFP g')"
    by (rule name_to_fips_inverse)
  with code have "STATEFP g = STATEFP g'"
    by simp
  then show ?thesis
    using assms(4) g g' by (simp add: get_status_def)
qed

lemma joined_first_match:
  assumes "build_county_dataset unicode_lower simplify geometry_json gdf = Inr (df, geojson)"
  shows "(select_rows df cnty st \<noteq> [] \<and> status (hd (select_rows df cnty st)) = expected) \<longleftrightarrow>
    (\<exists>r \<in> set df. county r = cnty \<and> state r = Some st \<and> status r = expected)"
proof
  assume l: "select_rows df cnty st \<noteq> [] \<and> status (hd (select_rows df cnty st)) = expected"
  then have "hd (select_rows df cnty st) \<in> set (select_rows df cnty st)"
    by simp
  then show "\<exists>r \<in> set df. county r = cnty \<and> state r = Some st \<and> status r = expected"
    using l by (auto simp: select_rows_def)
next
  assume "\<exists>r \<in> set df. county r = cnty \<and> state r = Some st \<and> status r = expected"
  then obtain r where r: "r \<in> set df" "county r = cnty" "state r = Some st" "status r = expected"
    by blast
  then have ne: "select_rows df cnty st \<noteq> []"
    by (auto simp: select_rows_def filter_empty_conv)
  then have "hd (select_rows df cnty st) \<in> set (select_rows df cnty st)"
    by simp
  then have h: "hd (select_rows df cnty st) \<in> set df"
    "county (hd (select_rows df cnty st)) = cnty" "state (hd (select_rows df cnty st)) = Some st"
    by (auto simp: select_rows_def)
  have "status (hd (select_rows df cnty st)) = status r"
    using joined_rows_agree [OF assms h(1) r(1)] h r by simp
  with ne r show "select_rows df cnty st \<noteq> [] \<and> status (hd (select_rows df cnty st)) = expected"
    by simp
qed

text \<open>
  C9. On every table, the verifier prints for each entry of \<open>checks\<close>, in order, the
  verdict the entry is to get: \<open>MISS\<close> when no row has exactly the county and the state
  of the entry, otherwise \<open>PASS\<close> or \<open>FAIL\<close> as the status of the matching row (the first
  one, where several match) equals the expected status. It returns true exactly when
  every entry has a matching row with the expected status. On a table produced by the
  joiner all rows matching an entry carry the same status, so there it returns true
  exactly when every entry has some row with its county, its state and its expected status.
\<close>

theorem verify_data_reports:
  "map fst (fst (verify_data df)) = map (expected_verdict df) checks \<and>
   (snd (verify_data df) \<longleftrightarrow>
      list_all (\<lambda>(cnty, st, expected, note).
        select_rows df cnty st \<noteq> [] \<and> status (hd (select_rows df cnty st)) = expected) checks) \<and>
   (build_county_dataset unicode_lower simplify geometry_json gdf = Inr (df, geojson) \<longrightarrow>
      (snd (verify_data df) \<longleftrightarrow>
         list_all (\<lambda>(cnty, st, expected, note).
           \<exists>r \<in> set df. county r = cnty \<and> state r = Some st \<and> status r = expected) checks))"
proof -
  have all_pass: "snd (verify_data df) \<longleftrightarrow>
      list_all (\<lambda>(cnty, st, expected, note).
        select_rows df cnty st \<noteq> [] \<and> status (hd (select_rows df cnty st)) = expected) checks"
    by (simp add: verify_data_def verify_loop expected_verdict_PASS)
  have "map fst (fst (verify_data df)) = map (expected_verdict df) checks"
    by (simp add: verify_data_def verify_loop comp_def)
  moreover have "snd (verify_data df) \<longleftrightarrow>
      list_all (\<lambda>(cnty, st, expected, note).
        \<exists>r \<in> set df. county r = cnty \<and> state r = Some st \<and> status r = expected) checks"
    if "build_county_dataset unicode_lower simplify geometry_json gdf = Inr (df, geojson)"
    unfolding all_pass by (simp only: joined_first_match [OF that])
  ultimately show ?thesis
    using all_pass by blast
qed

theorem verify_data_reports_witness:
  "(\<exists>df geojson.
      build_county_dataset id id id
       [\<lparr>GEOID = ''05059'', STATEFP = ''05'', NAME = ''Hot Spring'', geometry = ()\<rparr>,
       \<lparr>GEOID = ''48033'', STATEFP = ''48'', NAME = ''Borden'', geometry = ()\<rparr>,
       \<lparr>GEOID = ''48263'', STATEFP = ''48'', NAME = ''Kent'', geometry = ()\<rparr>,
       \<lparr>GEOID = ''48393'', STATEFP = ''48'', NAME = ''Roberts'', geometry = ()\<rparr>,
       \<lparr>GEOID = ''28009'', STATEFP = ''28'', NAME = ''Benton'', geometry = ()\<rparr>,
       \<lparr>GEOID = ''12077'', STATEFP = ''12'', NAME = ''Liberty'', geometry = ()\<rparr>,
       \<lparr>GEOID = ''01043'', STATEFP = ''01'', NAME = ''Cullman'', geometry = ()\<rparr>,
       \<lparr>GEOID = ''48447'', STATEFP = ''48'', NAME = ''Throckmorton'', geometry = ()\<rparr>,
       \<lparr>GEOID = ''47037'', STATEFP = ''47'', NAME = ''Davidson'', geometry = ()\<rparr>,
       \<lparr>GEOID = ''47157'', STATEFP = ''47'', NAME = ''Shelby'', geometry = ()\<rparr>,
       \<lparr>GEOID = ''47127'', STATEFP = ''47'', NAME = ''Moore'', geometry = ()\<rparr>] = Inr (df, geojson) \<and>
      snd (verify_data df)) \<and>
   map fst (fst (verify_data [\<lparr>fips = ''48263'', county = ''Kent'', state = Some ''Texas'', status = STATUS_WET\<rparr>])) =
     [MISS, MISS, FAIL, MISS, MISS, MISS, MISS, MISS, MISS, MISS, MISS] \<and>
   \<not> snd (verify_data [\<lparr>fips = ''48263'', county = ''Kent'', state = Some ''Texas'', status = STATUS_WET\<rparr>])"
proof -
  let ?gdf = "[\<lparr>GEOID = ''05059'', STATEFP = ''05'', NAME = ''Hot Spring'', geometry = ()\<rparr>,
       \<lparr>GEOID = ''48033'', STATEFP = ''48'', NAME = ''Borden'', geometry = ()\<rparr>,
       \<lparr>GEOID = ''48263'', STATEFP = ''48'', NAME = ''Kent'', geometry = ()\<rparr>,
       \<lparr>GEOID = ''48393'', STATEFP = ''48'', NAME = ''Roberts'', geometry = ()\<rparr>,
       \<lparr>GEOID = ''28009'', STATEFP = ''28'', NAME = ''Benton'', geometry = ()\<rparr>,
       \<lparr>GEOID = ''12077'', STATEFP = ''12'', NAME = ''Liberty'', geometry = ()\<rparr>,
       \<lparr>GEOID = ''01043'', STATEFP = ''01'', NAME = ''Cullman'', geometry = ()\<rparr>,
       \<lparr>GEOID = ''48447'', STATEFP = ''48'', NAME = ''Throckmorton'', geometry = ()\<rparr>,
       \<lparr>GEOID = ''47037'', STATEFP = ''47'', NAME = ''Davidson'', geometry = ()\<rparr>,
       \<lparr>GEOID = ''47157'', STATEFP = ''47'', NAME = ''Shelby'', geometry = ()\<rparr>,
       \<lparr>GEOID = ''47127'', STATEFP = ''47'', NAME = ''Moore'', geometry = ()\<rparr>]"
  let ?kent = "[\<lparr>fips = ''48263'', county = ''Kent'', state = Some ''Texas'', status = STATUS_WET\<rparr>]"
  have kept: "filter (\<lambda>r. STATEFP r \<in> valid_states) ?gdf = ?gdf"
    by (simp add: valid_states_def STATE_FIPS_TO_NAME_items_def)
  then obtain df and geojson :: "unit geojson"
    where built: "build_county_dataset id id id ?gdf = Inr (df, geojson)"
    by (simp add: build_county_dataset_result)
  have rows: "df =
      [\<lparr>fips = ''05059'', county = ''Hot Spring'', state = Some ''Arkansas'', status = STATUS_WET\<rparr>,
       \<lparr>fips = ''48033'', county = ''Borden'', state = Some ''Texas'', status = STATUS_DRY\<rparr>,
       \<lparr>fips = ''48263'', county = ''Kent'', state = Some ''Texas'', status = STATUS_DRY\<rparr>,
       \<lparr>fips = ''48393'', county = ''Roberts'', state = Some ''Texas'', status = STATUS_DRY\<rparr>,
       \<lparr>fips = ''28009'', county = ''Benton'', state = Some ''Mississippi'', status = STATUS_DRY\<rparr>,
       \<lparr>fips = ''12077'', county = ''Liberty'', state = Some ''Florida'', status = STATUS_DRY\<rparr>,
       \<lparr>fips = ''01043'', county = ''Cullman'', state = Some ''Alabama'', status = STATUS_MOIST\<rparr>,
       \<lparr>fips = ''48447'', county = ''Throckmorton'', state = Some ''Texas'', status = STATUS_WET\<rparr>,
       \<lparr>fips = ''47037'', county = ''Davidson'', state = Some ''Tennessee'', status = STATUS_WET\<rparr>,
       \<lparr>fips = ''47157'', county = ''Shelby'', state = Some ''Tennessee'', status = STATUS_WET\<rparr>,
       \<lparr>fips = ''47127'', county = ''Moore'', state = Some ''Tennessee'', status = STATUS_MOIST\<rparr>]"
    unfolding table_of_frame [OF built] kept
    by (simp add: STATE_FIPS_TO_NAME_def dict_of_def STATE_FIPS_TO_NAME_items_def
        get_status_def status_lookup)
  have joined: "snd (verify_data df) \<longleftrightarrow>
      list_all (\<lambda>(cnty, st, expected, note).
        \<exists>r \<in> set df. county r = cnty \<and> state r = Some st \<and> status r = expected) checks"
    using verify_data_reports [of df id id id ?gdf geojson] built by blast
  have verdicts: "map fst (fst (verify_data ?kent)) = map (expected_verdict ?kent) checks"
    using verify_data_reports [of ?kent] by blast
  have flag: "snd (verify_data ?kent) \<longleftrightarrow>
      list_all (\<lambda>(cnty, st, expected, note).
        select_rows ?kent cnty st \<noteq> [] \<and> status (hd (select_rows ?kent cnty st)) = expected)
        checks"
    using verify_data_reports [of ?kent] by blast
  have "snd (verify_data df)"
    unfolding joined
    by (simp add: rows checks_def STATUS_DRY_def STATUS_MOIST_def STATUS_WET_def)
  with built have "\<exists>df geojson. build_county_dataset id id id ?gdf = Inr (df, geojson) \<and>
      snd (verify_data df)"
    by (intro exI conjI)
  moreover have "map fst (fst (verify_data ?kent)) =
      [MISS, MISS, FAIL, MISS, MISS, MISS, MISS, MISS, MISS, MISS, MISS]"
    unfolding verdicts
    by (simp add: checks_def expected_verdict_def select_rows_def
        STATUS_DRY_def STATUS_MOIST_def STATUS_WET_def)
  moreover have "\<not> snd (verify_data ?kent)"
    unfolding flag by (simp add: checks_def select_rows_def)
  ultimately show ?thesis by blast
qed

subsection \<open>Letter case of county names\<close>

lemma same_letter_lower_char:
  assumes "same_letter c d"
  shows "lower_char c = lower_char d"
proof -
  have up: "lower_char x = lower_char y"
    if "65 \<le> (of_char x :: nat)" "(of_char x :: nat) \<le> 90" "(of_char y :: nat) = of_char x + 32"
    for x y
  proof -
    have "y = char_of (of_char y :: nat)"
      by simp
    then have "y = char_of (of_char x + 32 :: nat)"
      using that by simp
    then show ?thesis
      using that by (simp add: lower_char_def)
  qed
  from assms consider "c = d"
    | "65 \<le> (of_char c :: nat)" "(of_char c :: nat) \<le> 90" "(of_char d :: nat) = of_char c + 32"
    | "65 \<le> (of_char d :: nat)" "(of_char d :: nat) \<le> 90" "(of_char c :: nat) = of_char d + 32"
    by (auto simp: same_letter_def Let_def)
  then show ?thesis
  proof cases
    case 1
    then show ?thesis by simp
  next
    case 2
    then show ?thesis by (rule up)
  next
    case 3
    then show ?thesis by (rule up [symmetric])
  qed
qed

lemma same_letter_ascii: "same_letter c d \<Longrightarrow> is_ascii c \<Longrightarrow> is_ascii d"
  by (auto simp: same_letter_def is_ascii_def Let_def)

lemma differ_only_in_case_ascii:
  "differ_only_in_case s t \<Longrightarrow> list_all is_ascii s \<Longrightarrow> list_all is_ascii t"
  unfolding differ_only_in_case_def
  by (induction rule: list_all2_induct) (auto dest: same_letter_ascii)

lemma differ_only_in_case_map_lower:
  "differ_only_in_case s t \<Longrightarrow> map lower_char s = map lower_char t"
  unfolding differ_only_in_case_def
  by (induction rule: list_all2_induct) (simp_all add: same_letter_lower_char)

lemma differ_only_in_case_lower:
  "list_all is_ascii s \<Longrightarrow> differ_only_in_case s t \<Longrightarrow>
   lower unicode_lower s = lower unicode_lower t"
  by (simp add: lower_ascii differ_only_in_case_ascii differ_only_in_case_map_lower)

lemma writes_key_lowered:
  "writes unicode_lower b k \<Longrightarrow> \<exists>c. snd k = lower unicode_lower c"
  by (cases b) (auto simp: writes_def split: option.splits)

lemma batches_keys_lowered:
  "foldl (add_batch unicode_lower) m bs k = Some s \<Longrightarrow>
   m k = Some s \<or> (\<exists>c. snd k = lower unicode_lower c)"
proof (induction bs rule: rev_induct)
  case Nil
  then show ?case by simp
next
  case (snoc b bs)
  show ?case
  proof (cases "writes unicode_lower b k")
    case True
    then show ?thesis by (blast dest: writes_key_lowered)
  next
    case False
    with snoc show ?thesis by (simp add: add_batch_lookup)
  qed
qed

text \<open>
  C10, as the code has it. Every key of the built table holds a lowercased county name,
  and the join looks the lowercased name of the region up. So two regions of one state
  whose names are made of ASCII characters and differ only in letter case resolve to the
  same status.
\<close>

theorem status_ignores_ascii_letter_case:
  "(k \<in> dom (build_status_map unicode_lower) \<longrightarrow> (\<exists>c. snd k = lower unicode_lower c)) \<and>
   (list_all is_ascii name1 \<and> differ_only_in_case name1 name2 \<longrightarrow>
      get_status unicode_lower \<lparr>GEOID = id1, STATEFP = sfips, NAME = name1, geometry = geom1\<rparr> =
      get_status unicode_lower \<lparr>GEOID = id2, STATEFP = sfips, NAME = name2, geometry = geom2\<rparr>)"
proof -
  have "\<exists>c. snd k = lower unicode_lower c" if "k \<in> dom (build_status_map unicode_lower)"
  proof -
    from that obtain s where "foldl (add_batch unicode_lower) Map.empty status_batches k = Some s"
      by (auto simp: build_status_map_def)
    then show ?thesis
      by (auto dest: batches_keys_lowered)
  qed
  moreover have "get_status unicode_lower \<lparr>GEOID = id1, STATEFP = sfips, NAME = name1, geometry = geom1\<rparr> =
      get_status unicode_lower \<lparr>GEOID = id2, STATEFP = sfips, NAME = name2, geometry = geom2\<rparr>"
    if "list_all is_ascii name1" "differ_only_in_case name1 name2"
    using differ_only_in_case_lower [OF that, of unicode_lower] by (simp add: get_status_def)
  ultimately show ?thesis
    by blast
qed

theorem status_ignores_ascii_letter_case_witness:
  "(''47'', ''moore'') \<in> dom (build_status_map id) \<and>
   list_all is_ascii ''Moore'' \<and> differ_only_in_case ''Moore'' ''mOORE'' \<and>
   get_status id \<lparr>GEOID = ''47127'', STATEFP = ''47'', NAME = ''Moore'', geometry = ()\<rparr> = STATUS_MOIST \<and>
   get_status id \<lparr>GEOID = ''47127'', STATEFP = ''47'', NAME = ''mOORE'', geometry = ()\<rparr> = STATUS_MOIST"
proof -
  have key: "(''47'', ''moore'') \<in> dom (build_status_map id)"
    by (simp add: domIff status_lookup)
  have ascii: "list_all is_ascii ''Moore''"
    by (simp add: is_ascii_Char)
  have variant: "differ_only_in_case ''Moore'' ''mOORE''"
    by (simp add: differ_only_in_case_def same_letter_def)
  have moist: "get_status id \<lparr>GEOID = ''47127'', STATEFP = ''47'', NAME = ''Moore'', geometry = ()\<rparr> =
      STATUS_MOIST"
    by (simp add: get_status_def status_lookup)
  show ?thesis
    using key ascii variant moist
      status_ignores_ascii_letter_case [of "(''47'', ''moore'')" id "''Moore''" "''mOORE''"
        "''47127''" "''47''" "()" "''47127''" "()"]
    by simp
qed

text \<open>
  The claim as the specification states it, for every two names that differ only in
  letter case, fails outside ASCII. The dotless i (U+0131) is a small letter whose
  capital is \<open>I\<close>, so \<open>DICKSON\<close> and the name written with a dotless i in the place of
  the \<open>I\<close> differ only in letter case. \<open>str.lower\<close> sends the first to \<open>dickson\<close>, a key
  of the table for Tennessee, and leaves the second as it is, which is no key: the first
  region is Moist and the second Wet.
\<close>

theorem status_depends_on_case_of_dotless_i:
  "get_status lower_ascii_capitals_only
     \<lparr>GEOID = ''47043'', STATEFP = ''47'', NAME = ''DICKSON'', geometry = ()\<rparr> = STATUS_MOIST \<and>
   get_status lower_ascii_capitals_only
     \<lparr>GEOID = ''47043'', STATEFP = ''47'',
      NAME = [CHR ''d'', CHR 0xC4, CHR 0xB1, CHR ''c'', CHR ''k'', CHR ''s'', CHR ''o'', CHR ''n''],
      geometry = ()\<rparr> = STATUS_WET \<and>
   STATUS_MOIST \<noteq> STATUS_WET"
  by (simp add: get_status_def status_lookup lower_ascii_capitals_only_def)

end
